theory Spec2Isabelle
  imports Complex_Main "HOL-Library.Sublist"
begin

section \<open>JavaScript values\<close>

text \<open>
  The services page (\<^verbatim>\<open>client/src/pages/services.tsx\<close>) handles untyped JavaScript
  values: its helpers take \<^verbatim>\<open>unknown\<close>, the query results are \<^verbatim>\<open>any\<close>. A number is
  an IEEE double: a finite value, \<^verbatim>\<open>NaN\<close> or one of the two infinities. The page
  performs no arithmetic, so a finite double is represented by its rational value;
  the two zeros are identified, which no operation used here (\<^verbatim>\<open>typeof\<close>,
  \<^verbatim>\<open>Number.isFinite\<close>, truthiness) can tell apart.
\<close>

datatype jsnum = Finite rat | NaN | PosInfinity | NegInfinity

datatype jsval =
    VUndefined
  | VNull
  | VBool bool
  | VNum jsnum
  | VStr string
  | VArr "jsval list"
  | VObj "(string \<times> jsval) list"

text \<open>The \<^verbatim>\<open>typeof\<close> operator.\<close>

fun typeof :: "jsval \<Rightarrow> string" where
  "typeof VUndefined = ''undefined''"
| "typeof VNull = ''object''"
| "typeof (VBool b) = ''boolean''"
| "typeof (VNum n) = ''number''"
| "typeof (VStr s) = ''string''"
| "typeof (VArr xs) = ''object''"
| "typeof (VObj kvs) = ''object''"

text \<open>\<^verbatim>\<open>Number.isFinite(v)\<close>: true for a number that is neither \<^verbatim>\<open>NaN\<close> nor infinite.\<close>

fun Number_isFinite :: "jsval \<Rightarrow> bool" where
  "Number_isFinite (VNum (Finite x)) = True"
| "Number_isFinite v = False"

text \<open>\<^verbatim>\<open>Array.isArray(v)\<close>.\<close>

fun Array_isArray :: "jsval \<Rightarrow> bool" where
  "Array_isArray (VArr xs) = True"
| "Array_isArray v = False"

text \<open>Truthiness, as \<^verbatim>\<open>if (v)\<close> and \<^verbatim>\<open>a || b\<close> test it.\<close>

fun truthy :: "jsval \<Rightarrow> bool" where
  "truthy VUndefined = False"
| "truthy VNull = False"
| "truthy (VBool b) = b"
| "truthy (VNum (Finite x)) = (x \<noteq> 0)"
| "truthy (VNum NaN) = False"
| "truthy (VNum n) = True"
| "truthy (VStr s) = (s \<noteq> [])"
| "truthy (VArr xs) = True"
| "truthy (VObj kvs) = True"

text \<open>\<^verbatim>\<open>a || b\<close> and \<^verbatim>\<open>a ?? b\<close>.\<close>

definition js_or :: "jsval \<Rightarrow> jsval \<Rightarrow> jsval" where
  "js_or a b = (if truthy a then a else b)"

definition nullish :: "jsval \<Rightarrow> jsval \<Rightarrow> jsval" where
  "nullish a b = (if a = VUndefined \<or> a = VNull then b else a)"

text \<open>
  Property access \<^verbatim>\<open>v.k\<close> on a value that is neither \<^verbatim>\<open>null\<close> nor \<^verbatim>\<open>undefined\<close>: an
  object's own property, \<^verbatim>\<open>undefined\<close> when it has none. The keys the page reads
  (\<^verbatim>\<open>id\<close>, \<^verbatim>\<open>message\<close>, the service attributes) are no built-in property of a
  primitive or an array, so these give \<^verbatim>\<open>undefined\<close> too. Every receiver of a plain
  access in the page is an object or has passed a truthiness test; the optional
  chain \<^verbatim>\<open>v?.k\<close> gives \<^verbatim>\<open>undefined\<close> on \<^verbatim>\<open>null\<close> and \<^verbatim>\<open>undefined\<close>.
\<close>

fun member :: "jsval \<Rightarrow> string \<Rightarrow> jsval" where
  "member (VObj kvs) k = (case map_of kvs k of None \<Rightarrow> VUndefined | Some v \<Rightarrow> v)"
| "member v k = VUndefined"

definition optChain :: "jsval \<Rightarrow> string \<Rightarrow> jsval" where
  "optChain v k = (if v = VUndefined \<or> v = VNull then VUndefined else member v k)"

text \<open>
  The built-ins whose results depend on number parsing and formatting are parameters
  of the model: \<^verbatim>\<open>Number(s)\<close> on a string, \<^verbatim>\<open>String.prototype.trim\<close>,
  \<^verbatim>\<open>JSON.stringify\<close> (which may give \<^verbatim>\<open>undefined\<close>), \<^verbatim>\<open>JSON.parse\<close> (which may throw)
  and the string conversion of a template literal. So are \<^verbatim>\<open>isUnauthorizedError\<close>, imported from
  \<^verbatim>\<open>@/lib/authUtils\<close>, and whether \<^verbatim>\<open>z.number()\<close> accepts an infinite number
  (zod 3 does, zod 4 does not; the sources do not fix the version). A thrown or
  rejected error is an \<open>exn\<close>: an \<^verbatim>\<open>Error\<close> with its message, a \<^verbatim>\<open>TypeError\<close> or a
  \<^verbatim>\<open>SyntaxError\<close>. Every theorem below holds for any such runtime.
\<close>

datatype exn = Error string | TypeError | SyntaxError

record runtime =
  Number :: "string \<Rightarrow> jsnum"
  trim :: "string \<Rightarrow> string"
  JSON_stringify :: "jsval \<Rightarrow> jsval"
  JSON_parse :: "string \<Rightarrow> exn + jsval"
  ToString :: "jsval \<Rightarrow> string"
  isUnauthorizedError :: "exn \<Rightarrow> bool"
  zodInfinite :: bool

section \<open>The coercion helpers\<close>

text \<open>
  \<^verbatim>\<open>const toNumber = (v: unknown, fallback = 0) => { ... }\<close>. A default parameter
  takes its default when the argument is omitted: the argument is \<open>None\<close> then.
\<close>

definition toNumber :: "runtime \<Rightarrow> jsval \<Rightarrow> jsnum option \<Rightarrow> jsnum" where
  "toNumber rt v fallback_arg =
     (let fallback = (case fallback_arg of None \<Rightarrow> Finite 0 | Some f \<Rightarrow> f) in
      case v of
        VNum n \<Rightarrow> n
      | VStr s \<Rightarrow>
          (let n = Number rt (trim rt s) in
           if Number_isFinite (VNum n) then n else fallback)
      | _ \<Rightarrow> fallback)"

text \<open>\<^verbatim>\<open>const toBool = (v: unknown, fallback = false) => { ... }\<close>.\<close>

definition toBool :: "jsval \<Rightarrow> bool option \<Rightarrow> bool" where
  "toBool v fallback_arg =
     (let fallback = (case fallback_arg of None \<Rightarrow> False | Some f \<Rightarrow> f) in
      case v of
        VBool b \<Rightarrow> b
      | VStr s \<Rightarrow> (s = ''true'')
      | _ \<Rightarrow> fallback)"

section \<open>Schema validation\<close>

text \<open>
  The schemas of the zod library that the page builds, and what parsing a value
  with one gives: the parsed value, or the issues found, each with the path of
  the offending value. An object schema reads each key of its shape from the
  input, drops every other key, and keeps a key in its output when the key is
  in the input or the parsed value is not \<^verbatim>\<open>undefined\<close>. A union gives the
  result of its first option that accepts. \<^verbatim>\<open>z.number()\<close> rejects \<^verbatim>\<open>NaN\<close>.
\<close>

datatype path_elem = Key string | Idx nat

datatype issue_code = InvalidType | InvalidUnion | TooSmall string

datatype issue = Issue (path: "path_elem list") (code: issue_code)

datatype schema =
    ZString
  | ZMin nat string schema
  | ZNumber
  | ZBoolean
  | ZArray schema
  | ZUnion "schema list"
  | ZOptional schema
  | ZDefault schema jsval
  | ZObject "(string \<times> schema) list"

definition issuesAt :: "path_elem \<Rightarrow> issue list + jsval \<Rightarrow> issue list" where
  "issuesAt p r =
     (case r of Inl iss \<Rightarrow> map (\<lambda>i. Issue (p # path i) (code i)) iss | Inr v \<Rightarrow> [])"

definition parsed :: "issue list + jsval \<Rightarrow> jsval list" where
  "parsed r = (case r of Inl iss \<Rightarrow> [] | Inr v \<Rightarrow> [v])"

fun parse :: "bool \<Rightarrow> schema \<Rightarrow> jsval \<Rightarrow> issue list + jsval" where
  "parse infOk ZString v =
     (case v of VStr s \<Rightarrow> Inr v | _ \<Rightarrow> Inl [Issue [] InvalidType])"
| "parse infOk (ZMin n msg sch) v =
     (case parse infOk sch v of
        Inl iss \<Rightarrow> Inl iss
      | Inr w \<Rightarrow>
          (case w of
             VStr s \<Rightarrow> if length s < n then Inl [Issue [] (TooSmall msg)] else Inr w
           | _ \<Rightarrow> Inr w))"
| "parse infOk ZNumber v =
     (case v of
        VNum n \<Rightarrow>
          (case n of
             Finite x \<Rightarrow> Inr v
           | NaN \<Rightarrow> Inl [Issue [] InvalidType]
           | _ \<Rightarrow> if infOk then Inr v else Inl [Issue [] InvalidType])
      | _ \<Rightarrow> Inl [Issue [] InvalidType])"
| "parse infOk ZBoolean v =
     (case v of VBool b \<Rightarrow> Inr v | _ \<Rightarrow> Inl [Issue [] InvalidType])"
| "parse infOk (ZArray sch) v =
     (case v of
        VArr xs \<Rightarrow>
          (let rs = map (parse infOk sch) xs in
           if list_all (\<lambda>r. \<not> isl r) rs
           then Inr (VArr (concat (map parsed rs)))
           else Inl (concat (map (\<lambda>(i, r). issuesAt (Idx i) r) (enumerate 0 rs))))
      | _ \<Rightarrow> Inl [Issue [] InvalidType])"
| "parse infOk (ZUnion schs) v =
     (case filter (\<lambda>r. \<not> isl r) (map (\<lambda>sch. parse infOk sch v) schs) of
        r # rs \<Rightarrow> r
      | [] \<Rightarrow> Inl [Issue [] InvalidUnion])"
| "parse infOk (ZOptional sch) v =
     (if v = VUndefined then Inr VUndefined else parse infOk sch v)"
| "parse infOk (ZDefault sch d) v =
     (if v = VUndefined then parse infOk sch d else parse infOk sch v)"
| "parse infOk (ZObject shape) v =
     (case v of
        VObj kvs \<Rightarrow>
          (let rs = map (\<lambda>(k, sch). (k, parse infOk sch (member v k))) shape in
           if list_all (\<lambda>(k, r). \<not> isl r) rs
           then Inr (VObj (concat (map (\<lambda>(k, r).
                  filter (\<lambda>(k', w). w \<noteq> VUndefined \<or> map_of kvs k \<noteq> None)
                    (map (Pair k) (parsed r))) rs)))
           else Inl (concat (map (\<lambda>(k, r). issuesAt (Key k) r) rs)))
      | _ \<Rightarrow> Inl [Issue [] InvalidType])"

text \<open>\<^verbatim>\<open>const serviceSchema = z.object({ ... })\<close>.\<close>

definition serviceSchema :: schema where
  "serviceSchema = ZObject
     [(''name'', ZMin 1 ''Nom requis'' ZString),
      (''description'', ZDefault (ZOptional ZString) (VStr [])),
      (''price'', ZUnion [ZNumber, ZString]),
      (''duration'', ZUnion [ZNumber, ZString]),
      (''breakBefore'', ZOptional (ZUnion [ZNumber, ZString])),
      (''breakAfter'', ZOptional (ZUnion [ZNumber, ZString])),
      (''tags'', ZOptional (ZArray ZString)),
      (''depositRequired'', ZOptional (ZUnion [ZBoolean, ZString]))]"

section \<open>Requests, responses and notifications\<close>

text \<open>
  \<^verbatim>\<open>apiRequest(method, url, data)\<close> is imported from \<^verbatim>\<open>@/lib/queryClient\<close>: the
  model takes it as a function from the request to the awaited outcome, a
  rejection or a \<^verbatim>\<open>Response\<close>. Of a response the page reads \<^verbatim>\<open>ok\<close> and awaits
  \<^verbatim>\<open>json()\<close> and \<^verbatim>\<open>text()\<close>. String literals are lists of code units:
  \<open>CHR 0xE9\<close>, \<open>CHR 0xEA\<close> and \<open>CHR 0xE0\<close> are the accented letters of the French
  messages.

  The body of a response can be read once. \<open>res_body\<close> is what reading it gives:
  \<open>None\<close> for a response without a body, otherwise the text read or the error
  of the read. \<open>res_used\<close> tells that the body has been read already. Both
  \<^verbatim>\<open>json()\<close> and \<^verbatim>\<open>text()\<close> reject with a \<^verbatim>\<open>TypeError\<close> on a body that has been
  read, and otherwise read it, which marks it as read; a response without a
  body reads as the empty text. \<^verbatim>\<open>json()\<close> then parses the text. Each gives its
  outcome and the response as it is afterwards.
\<close>

datatype request = Request string string jsval

record response =
  res_ok :: bool
  res_body :: "(exn + string) option"
  res_used :: bool

definition consumeBody :: "response \<Rightarrow> (exn + string) \<times> response" where
  "consumeBody res =
     (case res_body res of
        None \<Rightarrow> (Inr [], res)
      | Some r \<Rightarrow>
          if res_used res then (Inl TypeError, res) else (r, res\<lparr>res_used := True\<rparr>))"

definition res_json :: "runtime \<Rightarrow> response \<Rightarrow> (exn + jsval) \<times> response" where
  "res_json rt res =
     (case consumeBody res of
        (Inl e, res') \<Rightarrow> (Inl e, res')
      | (Inr t, res') \<Rightarrow> (JSON_parse rt t, res'))"

definition res_text :: "response \<Rightarrow> (exn + string) \<times> response" where
  "res_text res = consumeBody res"

text \<open>A toast: title, description, variant. The page's observable effects, in order.\<close>

datatype toast = Toast string jsval "string option"

datatype effect =
    Notify toast
  | Send request
  | Invalidate string
  | RedirectAfter nat string

text \<open>\<^verbatim>\<open>const onApiError = async (res: Response) => { ... }\<close>: the message, then the toast.\<close>

definition apiErrorMsg :: "runtime \<Rightarrow> response \<Rightarrow> jsval" where
  "apiErrorMsg rt res =
     (case res_json rt res of
        (Inr data, res1) \<Rightarrow> js_or (optChain data ''message'') (JSON_stringify rt data)
      | (Inl e, res1) \<Rightarrow>
          (case res_text res1 of
             (Inr t, res2) \<Rightarrow> VStr t
           | (Inl e', res2) \<Rightarrow> VStr ''Erreur inconnue''))"

definition onApiError :: "runtime \<Rightarrow> response \<Rightarrow> effect list" where
  "onApiError rt res =
     (let msg = apiErrorMsg rt res in
      [Notify (Toast ''Erreur''
         (js_or msg (VStr (''Impossible de cr'' @ [CHR 0xE9] @ ''er le service.'')))
         (Some ''destructive''))])"

text \<open>The \<^verbatim>\<open>mutationFn\<close> of \<^verbatim>\<open>createServiceMutation\<close> and of \<^verbatim>\<open>updateServiceMutation\<close>.\<close>

definition createRequest :: "jsval \<Rightarrow> request" where
  "createRequest payload = Request ''POST'' ''/api/services'' payload"

definition createMutationFn ::
  "runtime \<Rightarrow> (request \<Rightarrow> exn + response) \<Rightarrow> jsval \<Rightarrow> effect list \<times> (exn + jsval)" where
  "createMutationFn rt apiRequest payload =
     (case apiRequest (createRequest payload) of
        Inl e \<Rightarrow> ([], Inl e)
      | Inr res \<Rightarrow>
          if \<not> res_ok res then (onApiError rt res, Inl (Error ''create failed''))
          else ([], fst (res_json rt res)))"

definition updateRequest :: "runtime \<Rightarrow> jsval \<Rightarrow> request" where
  "updateRequest rt vars =
     Request ''PUT'' (''/api/services/'' @ ToString rt (member vars ''id''))
       (member vars ''data'')"

definition updateMutationFn ::
  "runtime \<Rightarrow> (request \<Rightarrow> exn + response) \<Rightarrow> jsval \<Rightarrow> effect list \<times> (exn + jsval)" where
  "updateMutationFn rt apiRequest vars =
     (case apiRequest (updateRequest rt vars) of
        Inl e \<Rightarrow> ([], Inl e)
      | Inr res \<Rightarrow>
          if \<not> res_ok res then (onApiError rt res, Inl (Error ''update failed''))
          else ([], fst (res_json rt res)))"

section \<open>The page\<close>

text \<open>
  The state of \<^verbatim>\<open>ServicesPage\<close>: its two \<^verbatim>\<open>useState\<close> cells, the data of its two
  queries, the values, default values and errors held by the form library, the
  variables of each mutation while it is pending, and the effects so far. The
  data of a query arrives from the query library, not from a handler of the page.
\<close>

record page =
  isDialogOpen :: bool
  editing :: jsval
  salon :: jsval
  services :: jsval
  formValues :: jsval
  formDefaults :: jsval
  formErrors :: "issue list"
  createMutation :: "jsval option"
  updateMutation :: "jsval option"
  effects :: "effect list"

definition defaultValues :: jsval where
  "defaultValues = VObj
     [(''name'', VStr []),
      (''description'', VStr []),
      (''price'', VNum (Finite 0)),
      (''duration'', VNum (Finite 30)),
      (''breakBefore'', VNum (Finite 0)),
      (''breakAfter'', VNum (Finite 0)),
      (''tags'', VArr []),
      (''depositRequired'', VBool False)]"

definition initialPage :: "jsval \<Rightarrow> jsval \<Rightarrow> page" where
  "initialPage salonData servicesData =
     \<lparr>isDialogOpen = False, editing = VNull, salon = salonData, services = servicesData,
      formValues = defaultValues, formDefaults = defaultValues, formErrors = [],
      createMutation = None, updateMutation = None, effects = []\<rparr>"

definition isPending :: "jsval option \<Rightarrow> bool" where
  "isPending m = (m \<noteq> None)"

definition emit :: "effect list \<Rightarrow> page \<Rightarrow> page" where
  "emit es s = s\<lparr>effects := effects s @ es\<rparr>"

text \<open>
  \<^verbatim>\<open>form.reset()\<close> restores the default values; \<^verbatim>\<open>form.reset(values)\<close> installs
  \<^verbatim>\<open>values\<close>, which become the default values too. Both clear the errors.
\<close>

definition form_reset :: "jsval option \<Rightarrow> page \<Rightarrow> page" where
  "form_reset arg s =
     (case arg of
        None \<Rightarrow> s\<lparr>formValues := formDefaults s, formErrors := []\<rparr>
      | Some vals \<Rightarrow> s\<lparr>formValues := vals, formDefaults := vals, formErrors := []\<rparr>)"

fun putKey :: "string \<Rightarrow> jsval \<Rightarrow> (string \<times> jsval) list \<Rightarrow> (string \<times> jsval) list" where
  "putKey k v [] = [(k, v)]"
| "putKey k v ((k', w) # kvs) = (if k' = k then (k, v) # kvs else (k', w) # putKey k v kvs)"

fun setField :: "jsval \<Rightarrow> string \<Rightarrow> jsval \<Rightarrow> jsval" where
  "setField (VObj kvs) k v = VObj (putKey k v kvs)"
| "setField w k v = w"

text \<open>The object \<^verbatim>\<open>cleaned\<close> that \<^verbatim>\<open>onSubmit\<close> assembles from the salon and the form data.\<close>

definition cleaned :: "runtime \<Rightarrow> jsval \<Rightarrow> jsval \<Rightarrow> jsval" where
  "cleaned rt salonData data = VObj
     [(''salonId'', nullish (optChain salonData ''id'') VUndefined),
      (''name'', member data ''name''),
      (''description'', nullish (member data ''description'') (VStr [])),
      (''price'', VNum (toNumber rt (member data ''price'') None)),
      (''duration'', VNum (toNumber rt (member data ''duration'') None)),
      (''breakBefore'', VNum (toNumber rt (member data ''breakBefore'') (Some (Finite 0)))),
      (''breakAfter'', VNum (toNumber rt (member data ''breakAfter'') (Some (Finite 0)))),
      (''tags'', if Array_isArray (member data ''tags'') then member data ''tags'' else VArr []),
      (''depositRequired'', VBool (toBool (member data ''depositRequired'') (Some False)))]"

text \<open>\<^verbatim>\<open>mutation.mutate(variables)\<close>: the mutation is pending and its request goes out.\<close>

definition createMutate :: "jsval \<Rightarrow> page \<Rightarrow> page" where
  "createMutate payload s =
     emit [Send (createRequest payload)] (s\<lparr>createMutation := Some payload\<rparr>)"

definition updateMutate :: "runtime \<Rightarrow> jsval \<Rightarrow> page \<Rightarrow> page" where
  "updateMutate rt vars s =
     emit [Send (updateRequest rt vars)] (s\<lparr>updateMutation := Some vars\<rparr>)"

definition onSubmit :: "runtime \<Rightarrow> jsval \<Rightarrow> page \<Rightarrow> page" where
  "onSubmit rt data s =
     (let payload = cleaned rt (salon s) data in
      if truthy (editing s)
      then updateMutate rt (VObj [(''id'', member (editing s) ''id''), (''data'', payload)]) s
      else createMutate payload s)"

text \<open>
  \<^verbatim>\<open>form.handleSubmit(onSubmit)\<close> with the resolver \<^verbatim>\<open>zodResolver(serviceSchema)\<close>:
  the form values are parsed; issues become the form's errors and the handler is
  not called; otherwise the handler gets the parsed value.
\<close>

definition handleSubmit :: "runtime \<Rightarrow> page \<Rightarrow> page" where
  "handleSubmit rt s =
     (case parse (zodInfinite rt) serviceSchema (formValues s) of
        Inl iss \<Rightarrow> s\<lparr>formErrors := iss\<rparr>
      | Inr data \<Rightarrow> onSubmit rt data (s\<lparr>formErrors := []\<rparr>))"

text \<open>The \<^verbatim>\<open>onSuccess\<close> and \<^verbatim>\<open>onError\<close> callbacks of the two mutations.\<close>

definition createOnSuccess :: "page \<Rightarrow> page" where
  "createOnSuccess s =
     (let s1 = emit [Notify (Toast (''Service cr'' @ [CHR 0xE9, CHR 0xE9])
                 (VStr (''Le service a '' @ [CHR 0xE9] @ ''t'' @ [CHR 0xE9] @ '' ajout''
                        @ [CHR 0xE9] @ ''.'')) None)] s;
          s2 = s1\<lparr>isDialogOpen := False\<rparr>;
          s3 = form_reset None s2
      in emit [Invalidate ''/api/services''] s3)"

definition updateOnSuccess :: "page \<Rightarrow> page" where
  "updateOnSuccess s =
     (let s1 = emit [Notify (Toast (''Service modifi'' @ [CHR 0xE9])
                 (VStr (''Le service a '' @ [CHR 0xE9] @ ''t'' @ [CHR 0xE9] @ '' mis ''
                        @ [CHR 0xE0] @ '' jour.'')) None)] s;
          s2 = s1\<lparr>isDialogOpen := False\<rparr>;
          s3 = s2\<lparr>editing := VNull\<rparr>;
          s4 = form_reset None s3
      in emit [Invalidate ''/api/services''] s4)"

definition onError :: "runtime \<Rightarrow> exn \<Rightarrow> page \<Rightarrow> page" where
  "onError rt error s =
     (if isUnauthorizedError rt error
      then emit [Notify (Toast (''Non autoris'' @ [CHR 0xE9])
                   (VStr (''Vous devez '' @ [CHR 0xEA] @ ''tre connect'' @ [CHR 0xE9]
                          @ ''. Redirection...''))
                   (Some ''destructive'')),
                 RedirectAfter 500 ''/api/login''] s
      else s)"

text \<open>The submit button as rendered: its \<^verbatim>\<open>disabled\<close> attribute and its label.\<close>

record button =
  btn_disabled :: bool
  btn_label :: string

definition submitButton :: "page \<Rightarrow> button" where
  "submitButton s =
     \<lparr>btn_disabled = (isPending (createMutation s) \<or> isPending (updateMutation s)),
      btn_label = (if isPending (createMutation s) \<or> isPending (updateMutation s)
                   then ''Enregistrement...'' else ''Enregistrer'')\<rparr>"

text \<open>The values that the Modifier button of a listed service \<^verbatim>\<open>s\<close> puts in the form.\<close>

definition editValues :: "jsval \<Rightarrow> jsval" where
  "editValues sv = VObj
     [(''name'', nullish (member sv ''name'') (VStr [])),
      (''description'', nullish (member sv ''description'') (VStr [])),
      (''price'', nullish (member sv ''price'') (VNum (Finite 0))),
      (''duration'', nullish (member sv ''duration'') (VNum (Finite 30))),
      (''breakBefore'', nullish (member sv ''breakBefore'') (VNum (Finite 0))),
      (''breakAfter'', nullish (member sv ''breakAfter'') (VNum (Finite 0))),
      (''tags'', if Array_isArray (member sv ''tags'') then member sv ''tags'' else VArr []),
      (''depositRequired'', VBool (truthy (member sv ''depositRequired'')))]"

text \<open>
  What can happen on the page: a click on Ajouter, on the Modifier button of a
  listed service or on Annuler, the dialog asking to open or close, an edit of a
  form field, a submission of the form, and the outcome of the request of a
  pending mutation. The browser submits a form through its submit button only
  while that button is enabled. The dialog trigger around Ajouter toggles the
  dialog after the button's own handler.
\<close>

datatype event =
    ClickAdd
  | ClickEdit jsval
  | ClickCancel
  | OpenChange bool
  | FieldChange string jsval
  | Submit
  | CreateSettled "exn + response"
  | UpdateSettled "exn + response"

fun step :: "runtime \<Rightarrow> page \<Rightarrow> event \<Rightarrow> page" where
  "step rt s ClickAdd =
     (let s1 = form_reset None (s\<lparr>editing := VNull\<rparr>)
      in s1\<lparr>isDialogOpen := \<not> isDialogOpen s1\<rparr>)"
| "step rt s (ClickEdit sv) =
     (let s1 = s\<lparr>editing := sv\<rparr>;
          s2 = form_reset (Some (editValues sv)) s1
      in s2\<lparr>isDialogOpen := True\<rparr>)"
| "step rt s ClickCancel = s\<lparr>isDialogOpen := False\<rparr>"
| "step rt s (OpenChange b) = s\<lparr>isDialogOpen := b\<rparr>"
| "step rt s (FieldChange k v) = s\<lparr>formValues := setField (formValues s) k v\<rparr>"
| "step rt s Submit =
     (if btn_disabled (submitButton s) then s else handleSubmit rt s)"
| "step rt s (CreateSettled outcome) =
     (case createMutation s of
        None \<Rightarrow> s
      | Some payload \<Rightarrow>
          (case createMutationFn rt (\<lambda>req. outcome) payload of
             (es, r) \<Rightarrow>
               (let s1 = emit es (s\<lparr>createMutation := None\<rparr>) in
                case r of Inl e \<Rightarrow> onError rt e s1 | Inr d \<Rightarrow> createOnSuccess s1)))"
| "step rt s (UpdateSettled outcome) =
     (case updateMutation s of
        None \<Rightarrow> s
      | Some vars \<Rightarrow>
          (case updateMutationFn rt (\<lambda>req. outcome) vars of
             (es, r) \<Rightarrow>
               (let s1 = emit es (s\<lparr>updateMutation := None\<rparr>) in
                case r of Inl e \<Rightarrow> onError rt e s1 | Inr d \<Rightarrow> updateOnSuccess s1)))"

text \<open>A run of the page: the events of a list, in order.\<close>

fun run :: "runtime \<Rightarrow> page \<Rightarrow> event list \<Rightarrow> page" where
  "run rt s [] = s"
| "run rt s (e # es) = run rt (step rt s e) es"

text \<open>The requests among a list of effects.\<close>

fun sent :: "effect list \<Rightarrow> request list" where
  "sent [] = []"
| "sent (Send r # es) = r # sent es"
| "sent (e # es) = sent es"

section \<open>A runtime to evaluate on\<close>

text \<open>
  The theorems hold for every runtime. To evaluate them on concrete inputs, this
  one tabulates \<^verbatim>\<open>Number\<close> and \<^verbatim>\<open>JSON.parse\<close> on a few strings (any other string
  counts as unparsable here), trims the white space below code unit 256, and
  converts to a string only the values the examples use, with a placeholder
  elsewhere. \<open>CHR 0x22\<close> is the double quote.
\<close>

definition sampleNumber :: "string \<Rightarrow> jsnum" where
  "sampleNumber s =
     (case map_of
        [([], Finite 0), (''0'', Finite 0), (''30'', Finite 30), (''45'', Finite 45),
         (''12.5'', Finite (25 / 2)), (''Infinity'', PosInfinity),
         (''-Infinity'', NegInfinity), (''1e999'', PosInfinity)] s of
        Some n \<Rightarrow> n
      | None \<Rightarrow> NaN)"

definition isSpace :: "char \<Rightarrow> bool" where
  "isSpace c = (c \<in> set [CHR 0x09, CHR 0x0A, CHR 0x0B, CHR 0x0C, CHR 0x0D, CHR 0x20, CHR 0xA0])"

definition sampleTrim :: "string \<Rightarrow> string" where
  "sampleTrim s = rev (dropWhile isSpace (rev (dropWhile isSpace s)))"

definition sampleStringify :: "jsval \<Rightarrow> jsval" where
  "sampleStringify v =
     (case v of
        VUndefined \<Rightarrow> VUndefined
      | VNull \<Rightarrow> VStr ''null''
      | VBool b \<Rightarrow> VStr (if b then ''true'' else ''false'')
      | _ \<Rightarrow> VStr ''{}'')"

definition sampleParse :: "string \<Rightarrow> exn + jsval" where
  "sampleParse t =
     (case map_of
        [(''{}'', VObj []), (''null'', VNull),
         (''{'' @ [CHR 0x22] @ ''message'' @ [CHR 0x22] @ '':'' @ [CHR 0x22] @ ''Nom pris''
            @ [CHR 0x22] @ ''}'',
          VObj [(''message'', VStr ''Nom pris'')])] t of
        Some v \<Rightarrow> Inr v
      | None \<Rightarrow> Inl SyntaxError)"

definition sampleToString :: "jsval \<Rightarrow> string" where
  "sampleToString v =
     (case v of
        VStr s \<Rightarrow> s
      | VUndefined \<Rightarrow> ''undefined''
      | VNull \<Rightarrow> ''null''
      | VBool b \<Rightarrow> (if b then ''true'' else ''false'')
      | _ \<Rightarrow> ''[object Object]'')"

definition sampleRuntime :: runtime where
  "sampleRuntime =
     \<lparr>Number = sampleNumber, trim = sampleTrim, JSON_stringify = sampleStringify,
      JSON_parse = sampleParse, ToString = sampleToString,
      isUnauthorizedError = (\<lambda>e. case e of Error m \<Rightarrow> prefix ''401'' m | _ \<Rightarrow> False),
      zodInfinite = True\<rparr>"

section \<open>Properties of the helpers\<close>

lemma typeof_number: "typeof v = ''number'' \<longleftrightarrow> (\<exists>n. v = VNum n)"
  by (cases v) simp_all

lemma typeof_string: "typeof v = ''string'' \<longleftrightarrow> (\<exists>s. v = VStr s)"
  by (cases v) simp_all

lemma typeof_boolean: "typeof v = ''boolean'' \<longleftrightarrow> (\<exists>b. v = VBool b)"
  by (cases v) simp_all

lemma sampleRuntime_sel:
  "Number sampleRuntime = sampleNumber"
  "trim sampleRuntime = sampleTrim"
  "JSON_stringify sampleRuntime = sampleStringify"
  "JSON_parse sampleRuntime = sampleParse"
  "ToString sampleRuntime = sampleToString"
  "zodInfinite sampleRuntime = True"
  by (simp_all add: sampleRuntime_def)

text \<open>
  Claim C2. On a string \<open>s\<close> with fallback \<open>f\<close>, \<^verbatim>\<open>toNumber\<close> gives
  \<^verbatim>\<open>Number(s.trim())\<close> when that number is finite and \<open>f\<close> otherwise; so it gives 0
  on the empty string whenever \<^verbatim>\<open>Number\<close> of the trimmed empty string is 0. On a
  number it gives that number. On a value that is neither a string nor a number
  it gives \<open>f\<close>. Without a fallback argument the fallback is 0.
\<close>

theorem toNumber_spec:
  "toNumber rt (VStr s) (Some f) =
     (if Number_isFinite (VNum (Number rt (trim rt s))) then Number rt (trim rt s) else f)
   \<and> (Number rt (trim rt []) = Finite 0 \<longrightarrow> toNumber rt (VStr []) (Some f) = Finite 0)
   \<and> toNumber rt (VNum n) (Some f) = n
   \<and> (typeof v \<noteq> ''string'' \<and> typeof v \<noteq> ''number'' \<longrightarrow> toNumber rt v (Some f) = f)
   \<and> toNumber rt w None = toNumber rt w (Some (Finite 0))"
  by (cases v) (simp_all add: toNumber_def Let_def)

theorem toNumber_spec_witness:
  "toNumber sampleRuntime (VStr '' 12.5 '') (Some (Finite 7)) = Finite (25 / 2)
   \<and> toNumber sampleRuntime (VStr ''abc'') (Some (Finite 7)) = Finite 7
   \<and> toNumber sampleRuntime (VStr ''Infinity'') (Some (Finite 7)) = Finite 7
   \<and> Number sampleRuntime (trim sampleRuntime []) = Finite 0
   \<and> toNumber sampleRuntime (VStr []) (Some (Finite 7)) = Finite 0
   \<and> typeof VNull \<noteq> ''string'' \<and> typeof VNull \<noteq> ''number''
   \<and> toNumber sampleRuntime VNull (Some (Finite 7)) = Finite 7
   \<and> toNumber sampleRuntime (VBool True) None = Finite 0"
  using toNumber_spec [of sampleRuntime "'' 12.5 ''" "Finite 7" NaN VNull "VBool True"]
    toNumber_spec [of sampleRuntime "''abc''" "Finite 7" NaN VNull "VBool True"]
    toNumber_spec [of sampleRuntime "''Infinity''" "Finite 7" NaN VNull "VBool True"]
  by (simp add: sampleRuntime_sel sampleNumber_def sampleTrim_def isSpace_def toNumber_def)

text \<open>
  Claim C3. On a boolean \<^verbatim>\<open>toBool\<close> gives that boolean. On a string it gives true
  exactly when the string is \<^verbatim>\<open>"true"\<close>: another case or surrounding blanks give
  false, whatever the fallback. On a value that is neither it gives the fallback,
  which is false when the argument is omitted.
\<close>

theorem toBool_spec:
  "toBool (VBool b) fb = b
   \<and> toBool (VStr s) fb = (s = ''true'')
   \<and> \<not> toBool (VStr ''TRUE'') (Some True)
   \<and> \<not> toBool (VStr '' true '') (Some True)
   \<and> (typeof v \<noteq> ''boolean'' \<and> typeof v \<noteq> ''string'' \<longrightarrow> toBool v (Some f) = f)
   \<and> toBool w None = toBool w (Some False)"
  by (cases v) (simp_all add: toBool_def)

theorem toBool_spec_witness:
  "typeof (VNum (Finite 1)) \<noteq> ''boolean'' \<and> typeof (VNum (Finite 1)) \<noteq> ''string''
   \<and> toBool (VNum (Finite 1)) (Some True) = True
   \<and> toBool (VStr ''true'') (Some False) = True
   \<and> toBool (VStr ''yes'') (Some True) = False
   \<and> toBool VUndefined None = False"
  using toBool_spec [of False "Some False" "''true''" "VNum (Finite 1)" True VUndefined]
    toBool_spec [of False "Some True" "''yes''" "VNum (Finite 1)" True VUndefined]
  by (simp add: toBool_def)

lemma member_cleaned:
  "member (cleaned rt sal data) ''salonId'' = nullish (optChain sal ''id'') VUndefined"
  "member (cleaned rt sal data) ''name'' = member data ''name''"
  "member (cleaned rt sal data) ''description'' = nullish (member data ''description'') (VStr [])"
  "member (cleaned rt sal data) ''price'' = VNum (toNumber rt (member data ''price'') None)"
  "member (cleaned rt sal data) ''duration'' = VNum (toNumber rt (member data ''duration'') None)"
  "member (cleaned rt sal data) ''breakBefore'' =
     VNum (toNumber rt (member data ''breakBefore'') (Some (Finite 0)))"
  "member (cleaned rt sal data) ''breakAfter'' =
     VNum (toNumber rt (member data ''breakAfter'') (Some (Finite 0)))"
  "member (cleaned rt sal data) ''tags'' =
     (if Array_isArray (member data ''tags'') then member data ''tags'' else VArr [])"
  "member (cleaned rt sal data) ''depositRequired'' =
     VBool (toBool (member data ''depositRequired'') (Some False))"
  by (simp_all add: cleaned_def)

lemma toNumber_VNum: "toNumber rt (VNum n) fb = n"
  by (simp add: toNumber_def Let_def)

lemma toBool_VBool: "toBool (VBool b) fb = b"
  by (simp add: toBool_def)

lemma nullish_idem: "nullish (nullish a b) b = nullish a b"
  by (simp add: nullish_def)

text \<open>
  Claim C9. Both helpers are idempotent: applied to their own result, with the same
  fallback, they give that result again. They are the identity on numbers and on
  booleans, and building the payload from a payload leaves it as it is.
\<close>

theorem coercions_idempotent:
  "toNumber rt (VNum (toNumber rt v fb)) fb = toNumber rt v fb
   \<and> toBool (VBool (toBool v fb')) fb' = toBool v fb'
   \<and> toNumber rt (VNum n) fb = n
   \<and> toBool (VBool b) fb' = b
   \<and> cleaned rt sal (cleaned rt sal data) = cleaned rt sal data"
proof -
  have "cleaned rt sal (cleaned rt sal data) = cleaned rt sal data"
    unfolding cleaned_def [of rt sal "cleaned rt sal data"] member_cleaned
    by (simp add: toNumber_VNum toBool_VBool nullish_idem cleaned_def)
  then show ?thesis by (simp add: toNumber_VNum toBool_VBool)
qed

lemma toNumber_finite:
  assumes "typeof v = ''number'' \<longrightarrow> Number_isFinite v"
    and "case fb of None \<Rightarrow> True | Some f \<Rightarrow> Number_isFinite (VNum f)"
  shows "Number_isFinite (VNum (toNumber rt v fb))"
  using assms by (cases v; cases fb) (simp_all add: toNumber_def Let_def)

text \<open>
  Claim C10. If the input is not a non-finite number and the fallback is finite
  (or omitted), the result of \<^verbatim>\<open>toNumber\<close> is finite. Hence the four numeric fields
  of the payload are finite whenever none of the four form fields is a non-finite
  number.
\<close>

theorem toNumber_never_introduces_nonfinite:
  "((typeof v = ''number'' \<longrightarrow> Number_isFinite v) \<and> Number_isFinite (VNum f)
      \<longrightarrow> Number_isFinite (VNum (toNumber rt v (Some f)))
        \<and> Number_isFinite (VNum (toNumber rt v None)))
   \<and> ((\<forall>k \<in> {''price'', ''duration'', ''breakBefore'', ''breakAfter''}.
          typeof (member data k) = ''number'' \<longrightarrow> Number_isFinite (member data k))
      \<longrightarrow> (\<forall>k \<in> {''price'', ''duration'', ''breakBefore'', ''breakAfter''}.
          Number_isFinite (member (cleaned rt sal data) k)))"
  by (simp add: member_cleaned toNumber_finite)


theorem toNumber_never_introduces_nonfinite_witness:
  "Number_isFinite (VNum (toNumber sampleRuntime (VStr ''1e999'') (Some (Finite 7))))
   \<and> toNumber sampleRuntime (VStr ''1e999'') (Some (Finite 7)) = Finite 7
   \<and> Number_isFinite (VNum (toNumber sampleRuntime (VStr ''Infinity'') None))
   \<and> Number_isFinite (member (cleaned sampleRuntime VUndefined
         (VObj [(''price'', VStr ''Infinity''), (''duration'', VNum (Finite 30)),
                (''breakBefore'', VStr ''abc'')])) ''price'')
   \<and> Number_isFinite (member (cleaned sampleRuntime VUndefined
         (VObj [(''price'', VStr ''Infinity''), (''duration'', VNum (Finite 30)),
                (''breakBefore'', VStr ''abc'')])) ''breakAfter'')"
  using toNumber_never_introduces_nonfinite [of "VStr ''1e999''" "Finite 7" sampleRuntime
      "VObj [(''price'', VStr ''Infinity''), (''duration'', VNum (Finite 30)),
             (''breakBefore'', VStr ''abc'')]" VUndefined]
    toNumber_never_introduces_nonfinite [of "VStr ''Infinity''" "Finite 7" sampleRuntime
      "VObj [(''price'', VStr ''Infinity''), (''duration'', VNum (Finite 30)),
             (''breakBefore'', VStr ''abc'')]" VUndefined]
  by (simp add: sampleRuntime_sel sampleNumber_def sampleTrim_def isSpace_def toNumber_def)

section \<open>Properties of the schema\<close>

lemma parse_name_field:
  "parse b (ZMin 1 msg ZString) v =
     (case v of
        VStr n \<Rightarrow> if n = [] then Inl [Issue [] (TooSmall msg)] else Inr v
      | _ \<Rightarrow> Inl [Issue [] InvalidType])"
  by (cases v) (simp_all add: less_Suc_eq_0_disj)

lemma parse_description_field:
  "v = VUndefined \<or> typeof v = ''string'' \<Longrightarrow>
   parse b (ZDefault (ZOptional ZString) (VStr [])) v =
     Inr (if v = VUndefined then VStr [] else v)"
  by (cases v) simp_all

lemma parse_numOrStr:
  "typeof v = ''string'' \<or> typeof v = ''number'' \<and> Number_isFinite v \<Longrightarrow>
   parse b (ZUnion [ZNumber, ZString]) v = Inr v"
  by (cases v rule: Number_isFinite.cases) simp_all

lemma parse_optional_numOrStr:
  assumes "v = VUndefined \<or> typeof v = ''string'' \<or> typeof v = ''number'' \<and> Number_isFinite v"
  shows "parse b (ZOptional (ZUnion [ZNumber, ZString])) v = Inr v"
proof (cases "v = VUndefined")
  case True
  then show ?thesis by simp
next
  case False
  with assms have "parse b (ZUnion [ZNumber, ZString]) v = Inr v"
    by (intro parse_numOrStr) simp
  with False show ?thesis by (simp only: parse.simps if_False)
qed

lemma parse_strings: "map (parse b ZString) (map VStr ss) = map Inr (map VStr ss)"
  by (induction ss) simp_all

lemma parsed_Inr: "concat (map parsed (map Inr vs)) = vs"
  by (induction vs) (simp_all add: parsed_def)

lemma parse_tags_field:
  "v = VUndefined \<or> (\<exists>ss. v = VArr (map VStr ss)) \<Longrightarrow>
   parse b (ZOptional (ZArray ZString)) v = Inr v"
  by (auto simp: parse_strings parsed_Inr list_all_iff simp del: map_map)

lemma parse_deposit_field:
  "v = VUndefined \<or> typeof v = ''boolean'' \<or> typeof v = ''string'' \<Longrightarrow>
   parse b (ZOptional (ZUnion [ZBoolean, ZString])) v = Inr v"
  by (cases v) simp_all

text \<open>The output of an object schema holds, at each key of the shape, the parsed value.\<close>

lemma output_keys:
  assumes "x \<in> set (concat (map (\<lambda>(k, r). filter (\<lambda>(k', w). w \<noteq> VUndefined \<or> P k)
      (map (Pair k) (parsed r))) rs))"
  shows "fst x \<in> fst ` set rs"
proof -
  from assms obtain k r where kr: "(k, r) \<in> set rs"
    and x: "x \<in> set (filter (\<lambda>(k', w). w \<noteq> VUndefined \<or> P k) (map (Pair k) (parsed r)))"
    by auto
  from x have "fst x = k" by auto
  with kr show ?thesis by force
qed

lemma output_lookup:
  assumes "distinct (map fst rs)" and "(k, Inr w) \<in> set rs"
  shows "(case map_of (concat (map (\<lambda>(k, r). filter (\<lambda>(k', w). w \<noteq> VUndefined \<or> P k)
      (map (Pair k) (parsed r))) rs)) k of None \<Rightarrow> VUndefined | Some x \<Rightarrow> x) = w"
  using assms
proof (induction rs)
  case Nil
  then show ?case by simp
next
  case (Cons p rs)
  obtain k0 r0 where p: "p = (k0, r0)" by (cases p)
  show ?case
  proof (cases "k0 = k")
    case True
    from Cons.prems p True have notin: "k \<notin> fst ` set rs" by simp
    then have "(k, Inr w) \<notin> set rs" by force
    with Cons.prems p True have r0: "r0 = Inr w" by simp
    from notin have
      "k \<notin> fst ` set (concat (map (\<lambda>(k, r). filter (\<lambda>(k', w). w \<noteq> VUndefined \<or> P k)
          (map (Pair k) (parsed r))) rs))"
      using output_keys [of _ P rs] by blast
    then have "map_of (concat (map (\<lambda>(k, r). filter (\<lambda>(k', w). w \<noteq> VUndefined \<or> P k)
          (map (Pair k) (parsed r))) rs)) k = None"
      by (simp add: map_of_eq_None_iff)
    with p True r0 show ?thesis by (simp add: parsed_def)
  next
    case False
    with Cons.prems p have "(k, Inr w) \<in> set rs" "distinct (map fst rs)" by auto
    with Cons.IH have IH: "(case map_of (concat (map (\<lambda>(k, r). filter (\<lambda>(k', w). w \<noteq> VUndefined \<or> P k)
      (map (Pair k) (parsed r))) rs)) k of None \<Rightarrow> VUndefined | Some x \<Rightarrow> x) = w" by simp
    have "map_of (filter (\<lambda>(k', w). w \<noteq> VUndefined \<or> P k0) (map (Pair k0) (parsed r0))) k = None"
      using False by (auto simp: map_of_eq_None_iff)
    with IH p show ?thesis by (simp add: map_add_def)
  qed
qed

lemma parse_object_member:
  assumes "parse b (ZObject shape) v = Inr data" and "distinct (map fst shape)"
    and "(k, sch) \<in> set shape"
  shows "parse b sch (member v k) = Inr (member data k)"
proof -
  from assms(1) obtain kvs where v: "v = VObj kvs"
    by (cases v) simp_all
  define rs where "rs = map (\<lambda>(k, sch). (k, parse b sch (member v k))) shape"
  from assms(1) v have ok: "list_all (\<lambda>(k, r). \<not> isl r) rs"
    and data: "data = VObj (concat (map (\<lambda>(k, r).
          filter (\<lambda>(k', w). w \<noteq> VUndefined \<or> map_of kvs k \<noteq> None)
            (map (Pair k) (parsed r))) rs))"
    by (auto simp: rs_def Let_def split: if_splits)
  from assms(3) have mem: "(k, parse b sch (member v k)) \<in> set rs"
    by (force simp: rs_def)
  with ok obtain w where w: "parse b sch (member v k) = Inr w"
    by (cases "parse b sch (member v k)") (auto simp: list_all_iff)
  have "map fst rs = map fst shape"
    by (simp add: rs_def case_prod_unfold comp_def)
  with assms(2) have "distinct (map fst rs)" by simp
  from output_lookup [OF this, of k w "\<lambda>k. map_of kvs k \<noteq> None"] mem w data
  show ?thesis by simp
qed

lemma serviceSchema_member:
  assumes "parse b serviceSchema v = Inr data"
  shows "parse b (ZMin 1 ''Nom requis'' ZString) (member v ''name'') = Inr (member data ''name'')"
    and "parse b (ZDefault (ZOptional ZString) (VStr [])) (member v ''description'')
           = Inr (member data ''description'')"
    and "parse b (ZUnion [ZNumber, ZString]) (member v ''price'') = Inr (member data ''price'')"
    and "parse b (ZUnion [ZNumber, ZString]) (member v ''duration'') = Inr (member data ''duration'')"
    and "parse b (ZOptional (ZUnion [ZNumber, ZString])) (member v ''breakBefore'')
           = Inr (member data ''breakBefore'')"
    and "parse b (ZOptional (ZUnion [ZNumber, ZString])) (member v ''breakAfter'')
           = Inr (member data ''breakAfter'')"
    and "parse b (ZOptional (ZArray ZString)) (member v ''tags'') = Inr (member data ''tags'')"
    and "parse b (ZOptional (ZUnion [ZBoolean, ZString])) (member v ''depositRequired'')
           = Inr (member data ''depositRequired'')"
  using assms unfolding serviceSchema_def
  by (rule parse_object_member; simp)+


lemma parse_object_reject:
  assumes "v = VObj kvs" and "(k, sch) \<in> set shape" and "parse b sch (member v k) = Inl es"
  shows "\<exists>iss. parse b (ZObject shape) v = Inl iss
           \<and> set (issuesAt (Key k) (Inl es)) \<subseteq> set iss"
proof -
  define rs where "rs = map (\<lambda>(k, sch). (k, parse b sch (member v k))) shape"
  from assms(2,3) have mem: "(k, Inl es) \<in> set rs"
    by (force simp: rs_def)
  then have "\<not> list_all (\<lambda>(k, r). \<not> isl r) rs"
    by (force simp: list_all_iff)
  then have "parse b (ZObject shape) v
      = Inl (concat (map (\<lambda>(k, r). issuesAt (Key k) r) rs))"
    unfolding rs_def assms(1) by (simp add: Let_def)
  moreover from mem have
    "set (issuesAt (Key k) (Inl es)) \<subseteq> set (concat (map (\<lambda>(k, r). issuesAt (Key k) r) rs))"
    by force
  ultimately show ?thesis by blast
qed

lemma parse_object_accept:
  assumes "v = VObj kvs"
    and "list_all (\<lambda>(k, sch). \<not> isl (parse b sch (member v k))) shape"
  shows "\<exists>data. parse b (ZObject shape) v = Inr data"
proof -
  from assms(2) have
    "list_all (\<lambda>(k, r). \<not> isl r) (map (\<lambda>(k, sch). (k, parse b sch (member v k))) shape)"
    by (auto simp: list_all_iff)
  then show ?thesis unfolding assms(1) by (simp add: Let_def)
qed

lemma member_VStr_object: "member v k = VStr n \<Longrightarrow> \<exists>kvs. v = VObj kvs"
  by (cases v) simp_all

lemma serviceSchema_rejects_empty_name:
  assumes "member input ''name'' = VStr []"
  shows "\<exists>iss. parse b serviceSchema input = Inl iss
           \<and> Issue [Key ''name''] (TooSmall ''Nom requis'') \<in> set iss"
proof -
  from assms obtain kvs where input: "input = VObj kvs"
    using member_VStr_object by blast
  have name: "parse b (ZMin 1 ''Nom requis'' ZString) (member input ''name'')
          = Inl [Issue [] (TooSmall ''Nom requis'')]"
    unfolding assms parse_name_field by simp
  have "\<exists>iss. parse b serviceSchema input = Inl iss
      \<and> set (issuesAt (Key ''name'') (Inl [Issue [] (TooSmall ''Nom requis'')])) \<subseteq> set iss"
    unfolding serviceSchema_def
    by (rule parse_object_reject [OF input _ name]) (simp only: list.set insertI1)
  then show ?thesis
    by (auto simp: issuesAt_def)
qed

lemma serviceSchema_accepts:
  assumes "input = VObj kvs"
    and "member input ''name'' = VStr n" and "n \<noteq> []"
    and "typeof (member input ''price'') = ''string''
         \<or> typeof (member input ''price'') = ''number'' \<and> Number_isFinite (member input ''price'')"
    and "typeof (member input ''duration'') = ''string''
         \<or> typeof (member input ''duration'') = ''number''
           \<and> Number_isFinite (member input ''duration'')"
    and "member input ''description'' = VUndefined
         \<or> typeof (member input ''description'') = ''string''"
    and "member input ''breakBefore'' = VUndefined
         \<or> typeof (member input ''breakBefore'') = ''string''
         \<or> typeof (member input ''breakBefore'') = ''number''
           \<and> Number_isFinite (member input ''breakBefore'')"
    and "member input ''breakAfter'' = VUndefined
         \<or> typeof (member input ''breakAfter'') = ''string''
         \<or> typeof (member input ''breakAfter'') = ''number''
           \<and> Number_isFinite (member input ''breakAfter'')"
    and "member input ''tags'' = VUndefined \<or> (\<exists>ss. member input ''tags'' = VArr (map VStr ss))"
    and "member input ''depositRequired'' = VUndefined
         \<or> typeof (member input ''depositRequired'') = ''boolean''
         \<or> typeof (member input ''depositRequired'') = ''string''"
  shows "\<exists>data. parse b serviceSchema input = Inr data"
proof -
  have name: "parse b (ZMin 1 ''Nom requis'' ZString) (member input ''name'') = Inr (VStr n)"
    unfolding assms(2) parse_name_field using assms(3) by simp
  note fields = name parse_numOrStr [OF assms(4)] parse_numOrStr [OF assms(5)]
    parse_description_field [OF assms(6)] parse_optional_numOrStr [OF assms(7)]
    parse_optional_numOrStr [OF assms(8)] parse_tags_field [OF assms(9)]
    parse_deposit_field [OF assms(10)]
  show ?thesis
    unfolding serviceSchema_def
    by (rule parse_object_accept [OF assms(1)])
      (simp only: list.pred_inject case_prod_conv fields sum.disc not_False_eq_True simp_thms)
qed


text \<open>What the schema accepts at a key other than \<^verbatim>\<open>description\<close>, it returns unchanged.\<close>

lemma parse_numOrStr_same:
  "parse b (ZUnion [ZNumber, ZString]) v = Inr w \<Longrightarrow> w = v"
  by (cases v rule: Number_isFinite.cases) (auto split: if_splits)

lemma parse_boolOrStr_same:
  "parse b (ZUnion [ZBoolean, ZString]) v = Inr w \<Longrightarrow> w = v"
  by (cases v) (auto split: if_splits)

lemma parse_optional_same:
  assumes "parse b (ZOptional sch) v = Inr w" and "\<And>w. parse b sch v = Inr w \<Longrightarrow> w = v"
  shows "w = v"
  using assms by (cases "v = VUndefined") auto

lemma parse_name_same:
  "parse b (ZMin 1 msg ZString) v = Inr w \<Longrightarrow> w = v \<and> (\<exists>n. v = VStr n \<and> n \<noteq> [])"
  unfolding parse_name_field by (cases v) (auto split: if_splits)

lemma parsed_strings:
  "list_all (\<lambda>r. \<not> isl r) (map (parse b ZString) xs) \<Longrightarrow>
   concat (map parsed (map (parse b ZString) xs)) = xs"
proof (induction xs)
  case Nil
  then show ?case by simp
next
  case (Cons x xs)
  then show ?case by (cases x) (simp_all add: parsed_def)
qed

lemma parse_stringArray_same:
  "parse b (ZArray ZString) v = Inr w \<Longrightarrow> w = v"
  by (cases v) (auto simp: Let_def parsed_strings split: if_splits simp del: map_map)

lemma parse_description_same:
  "parse b (ZDefault (ZOptional ZString) (VStr [])) v = Inr w \<Longrightarrow>
   w = (if v = VUndefined then VStr [] else v) \<and> (\<exists>d. w = VStr d)"
  by (cases v) (auto split: if_splits)

lemma serviceSchema_data:
  assumes "parse b serviceSchema input = Inr data"
  shows "member data ''name'' = member input ''name''"
    and "\<exists>n. member data ''name'' = VStr n \<and> n \<noteq> []"
    and "member data ''description'' =
           (if member input ''description'' = VUndefined then VStr []
            else member input ''description'')"
    and "\<exists>d. member data ''description'' = VStr d"
    and "member data ''price'' = member input ''price''"
    and "member data ''duration'' = member input ''duration''"
    and "member data ''breakBefore'' = member input ''breakBefore''"
    and "member data ''breakAfter'' = member input ''breakAfter''"
    and "member data ''tags'' = member input ''tags''"
    and "member data ''depositRequired'' = member input ''depositRequired''"
proof -
  note m = serviceSchema_member [OF assms]
  from parse_name_same [OF m(1)]
  show "member data ''name'' = member input ''name''"
    and "\<exists>n. member data ''name'' = VStr n \<and> n \<noteq> []" by auto
  from parse_description_same [OF m(2)]
  show "member data ''description'' =
           (if member input ''description'' = VUndefined then VStr []
            else member input ''description'')"
    and "\<exists>d. member data ''description'' = VStr d" by blast+
  show "member data ''price'' = member input ''price''"
    by (rule parse_numOrStr_same [OF m(3)])
  show "member data ''duration'' = member input ''duration''"
    by (rule parse_numOrStr_same [OF m(4)])
  show "member data ''breakBefore'' = member input ''breakBefore''"
    by (rule parse_optional_same [OF m(5)]) (rule parse_numOrStr_same)
  show "member data ''breakAfter'' = member input ''breakAfter''"
    by (rule parse_optional_same [OF m(6)]) (rule parse_numOrStr_same)
  show "member data ''tags'' = member input ''tags''"
    by (rule parse_optional_same [OF m(7)]) (rule parse_stringArray_same)
  show "member data ''depositRequired'' = member input ''depositRequired''"
    by (rule parse_optional_same [OF m(8)]) (rule parse_boolOrStr_same)
qed

lemma salonId_cases:
  "nullish (optChain sal ''id'') VUndefined =
     (if sal = VUndefined \<or> sal = VNull \<or> member sal ''id'' = VNull then VUndefined
      else member sal ''id'')"
  by (simp add: nullish_def optChain_def)

lemma effects_onSubmit:
  "effects (onSubmit rt data s) = effects s @
     [Send (if truthy (editing s)
            then Request ''PUT'' (''/api/services/'' @ ToString rt (member (editing s) ''id''))
                   (cleaned rt (salon s) data)
            else Request ''POST'' ''/api/services'' (cleaned rt (salon s) data))]"
  by (simp add: onSubmit_def Let_def updateMutate_def createMutate_def emit_def
      updateRequest_def createRequest_def)

text \<open>
  Claim C1, amended. For form values that \<^verbatim>\<open>serviceSchema\<close> accepts and any salon,
  the payload of \<^verbatim>\<open>onSubmit\<close> has the form's name; its description, or the empty
  string when there is none; \<^verbatim>\<open>toNumber\<close> of its price, duration and breaks
  (fallback 0); its tags when they are an array and the empty array otherwise;
  \<^verbatim>\<open>toBool\<close> of its deposit flag (fallback false). The salon's id becomes
  \<^verbatim>\<open>salonId\<close> unless it is \<^verbatim>\<open>null\<close>: then, and when no salon is loaded, \<^verbatim>\<open>salonId\<close>
  is \<^verbatim>\<open>undefined\<close>. Price and duration are numbers, the deposit flag a boolean,
  and this payload is the body of the one request that \<^verbatim>\<open>onSubmit\<close> sends.
\<close>

theorem onSubmit_payload:
  assumes "parse (zodInfinite rt) serviceSchema input = Inr data"
  shows "member (cleaned rt (salon s) data) ''name'' = member input ''name''
    \<and> member (cleaned rt (salon s) data) ''description'' =
        (if member input ''description'' = VUndefined then VStr []
         else member input ''description'')
    \<and> member (cleaned rt (salon s) data) ''price''
        = VNum (toNumber rt (member input ''price'') None)
    \<and> member (cleaned rt (salon s) data) ''duration''
        = VNum (toNumber rt (member input ''duration'') None)
    \<and> member (cleaned rt (salon s) data) ''breakBefore''
        = VNum (toNumber rt (member input ''breakBefore'') (Some (Finite 0)))
    \<and> member (cleaned rt (salon s) data) ''breakAfter''
        = VNum (toNumber rt (member input ''breakAfter'') (Some (Finite 0)))
    \<and> member (cleaned rt (salon s) data) ''tags''
        = (if Array_isArray (member input ''tags'') then member input ''tags'' else VArr [])
    \<and> member (cleaned rt (salon s) data) ''depositRequired''
        = VBool (toBool (member input ''depositRequired'') (Some False))
    \<and> member (cleaned rt (salon s) data) ''salonId''
        = (if salon s = VUndefined \<or> salon s = VNull \<or> member (salon s) ''id'' = VNull
           then VUndefined else member (salon s) ''id'')
    \<and> typeof (member (cleaned rt (salon s) data) ''price'') = ''number''
    \<and> typeof (member (cleaned rt (salon s) data) ''duration'') = ''number''
    \<and> typeof (member (cleaned rt (salon s) data) ''depositRequired'') = ''boolean''
    \<and> effects (onSubmit rt data s) = effects s @
        [Send (if truthy (editing s)
               then Request ''PUT''
                      (''/api/services/'' @ ToString rt (member (editing s) ''id''))
                      (cleaned rt (salon s) data)
               else Request ''POST'' ''/api/services'' (cleaned rt (salon s) data))]"
proof -
  note d = serviceSchema_data [OF assms]
  from d(4) have "nullish (member data ''description'') (VStr []) = member data ''description''"
    by (auto simp: nullish_def)
  then show ?thesis
    unfolding member_cleaned salonId_cases effects_onSubmit
    by (simp add: d(1,3,5-10))
qed


theorem onSubmit_payload_witness:
  "member (cleaned sampleRuntime (VObj [(''id'', VStr ''salon-1'')])
      (VObj [(''name'', VStr ''Coupe''), (''description'', VStr []),
             (''price'', VStr ''45''), (''duration'', VNum (Finite 30)),
             (''depositRequired'', VStr ''true'')])) ''price'' = VNum (Finite 45)
   \<and> member (cleaned sampleRuntime (VObj [(''id'', VStr ''salon-1'')])
      (VObj [(''name'', VStr ''Coupe''), (''description'', VStr []),
             (''price'', VStr ''45''), (''duration'', VNum (Finite 30)),
             (''depositRequired'', VStr ''true'')])) ''salonId'' = VStr ''salon-1''
   \<and> member (cleaned sampleRuntime (VObj [(''id'', VStr ''salon-1'')])
      (VObj [(''name'', VStr ''Coupe''), (''description'', VStr []),
             (''price'', VStr ''45''), (''duration'', VNum (Finite 30)),
             (''depositRequired'', VStr ''true'')])) ''depositRequired'' = VBool True
   \<and> sent (effects (onSubmit sampleRuntime
      (VObj [(''name'', VStr ''Coupe''), (''description'', VStr []),
             (''price'', VStr ''45''), (''duration'', VNum (Finite 30)),
             (''depositRequired'', VStr ''true'')])
      (initialPage (VObj [(''id'', VStr ''salon-1'')]) (VArr []))))
     = [Request ''POST'' ''/api/services''
         (VObj [(''salonId'', VStr ''salon-1''), (''name'', VStr ''Coupe''),
                (''description'', VStr []), (''price'', VNum (Finite 45)),
                (''duration'', VNum (Finite 30)), (''breakBefore'', VNum (Finite 0)),
                (''breakAfter'', VNum (Finite 0)), (''tags'', VArr []),
                (''depositRequired'', VBool True)])]"
proof -
  have "parse (zodInfinite sampleRuntime) serviceSchema
      (VObj [(''name'', VStr ''Coupe''), (''price'', VStr ''45''),
             (''duration'', VNum (Finite 30)), (''depositRequired'', VStr ''true'')])
    = Inr (VObj [(''name'', VStr ''Coupe''), (''description'', VStr []),
             (''price'', VStr ''45''), (''duration'', VNum (Finite 30)),
             (''depositRequired'', VStr ''true'')])"
    by (simp add: serviceSchema_def parsed_def sampleRuntime_sel)
  from onSubmit_payload [OF this, of "initialPage (VObj [(''id'', VStr ''salon-1'')]) (VArr [])"]
  show ?thesis
    by (simp add: initialPage_def sampleRuntime_sel sampleNumber_def sampleTrim_def
        isSpace_def toNumber_def toBool_def cleaned_def nullish_def optChain_def)
qed

theorem salonId_null_counterexample:
  "parse True serviceSchema
      (VObj [(''name'', VStr ''Coupe''), (''price'', VStr ''45''),
             (''duration'', VNum (Finite 30))])
     = Inr (VObj [(''name'', VStr ''Coupe''), (''description'', VStr []),
                  (''price'', VStr ''45''), (''duration'', VNum (Finite 30))])
   \<and> member (VObj [(''id'', VNull)]) ''id'' = VNull
   \<and> member (cleaned sampleRuntime (VObj [(''id'', VNull)])
        (VObj [(''name'', VStr ''Coupe''), (''description'', VStr []),
               (''price'', VStr ''45''), (''duration'', VNum (Finite 30))])) ''salonId''
     = VUndefined"
  by (simp add: serviceSchema_def parsed_def cleaned_def nullish_def optChain_def)


lemma handleSubmit_invalid:
  "parse (zodInfinite rt) serviceSchema (formValues s) = Inl iss \<Longrightarrow>
   handleSubmit rt s = s\<lparr>formErrors := iss\<rparr>"
  by (simp add: handleSubmit_def)

text \<open>
  Claim C4, amended. \<^verbatim>\<open>serviceSchema\<close> rejects every input whose name is the empty
  string, with the issue \<^verbatim>\<open>Nom requis\<close> at \<^verbatim>\<open>name\<close>. It accepts every input whose
  name is a non-empty string, whose price and duration are each a string or a
  finite number, and whose other attributes are each absent or of the declared
  type: a string description, breaks that are a string or a finite number, tags
  that are an array of strings, a deposit flag that is a boolean or a string.
  When validation fails the submit handler only records the issues, so a
  submission with an empty name sends no request and starts no mutation.
\<close>

theorem serviceSchema_validation:
  "(member input ''name'' = VStr [] \<longrightarrow>
      (\<exists>iss. parse b serviceSchema input = Inl iss
         \<and> Issue [Key ''name''] (TooSmall ''Nom requis'') \<in> set iss))
   \<and> ((\<exists>n. member input ''name'' = VStr n \<and> n \<noteq> [])
       \<and> (typeof (member input ''price'') = ''string''
            \<or> typeof (member input ''price'') = ''number''
              \<and> Number_isFinite (member input ''price''))
       \<and> (typeof (member input ''duration'') = ''string''
            \<or> typeof (member input ''duration'') = ''number''
              \<and> Number_isFinite (member input ''duration''))
       \<and> (member input ''description'' = VUndefined
            \<or> typeof (member input ''description'') = ''string'')
       \<and> (member input ''breakBefore'' = VUndefined
            \<or> typeof (member input ''breakBefore'') = ''string''
            \<or> typeof (member input ''breakBefore'') = ''number''
              \<and> Number_isFinite (member input ''breakBefore''))
       \<and> (member input ''breakAfter'' = VUndefined
            \<or> typeof (member input ''breakAfter'') = ''string''
            \<or> typeof (member input ''breakAfter'') = ''number''
              \<and> Number_isFinite (member input ''breakAfter''))
       \<and> (member input ''tags'' = VUndefined
            \<or> (\<exists>ss. member input ''tags'' = VArr (map VStr ss)))
       \<and> (member input ''depositRequired'' = VUndefined
            \<or> typeof (member input ''depositRequired'') = ''boolean''
            \<or> typeof (member input ''depositRequired'') = ''string'')
      \<longrightarrow> (\<exists>data. parse b serviceSchema input = Inr data))
   \<and> (\<forall>iss. parse (zodInfinite rt) serviceSchema (formValues s) = Inl iss
        \<longrightarrow> handleSubmit rt s = s\<lparr>formErrors := iss\<rparr>)
   \<and> (member (formValues s) ''name'' = VStr [] \<longrightarrow>
        effects (step rt s Submit) = effects s
        \<and> createMutation (step rt s Submit) = createMutation s
        \<and> updateMutation (step rt s Submit) = updateMutation s)"
proof (intro conjI impI allI)
  assume "member input ''name'' = VStr []"
  then show "\<exists>iss. parse b serviceSchema input = Inl iss
         \<and> Issue [Key ''name''] (TooSmall ''Nom requis'') \<in> set iss"
    by (rule serviceSchema_rejects_empty_name)
next
  assume a: "(\<exists>n. member input ''name'' = VStr n \<and> n \<noteq> [])
       \<and> (typeof (member input ''price'') = ''string''
            \<or> typeof (member input ''price'') = ''number''
              \<and> Number_isFinite (member input ''price''))
       \<and> (typeof (member input ''duration'') = ''string''
            \<or> typeof (member input ''duration'') = ''number''
              \<and> Number_isFinite (member input ''duration''))
       \<and> (member input ''description'' = VUndefined
            \<or> typeof (member input ''description'') = ''string'')
       \<and> (member input ''breakBefore'' = VUndefined
            \<or> typeof (member input ''breakBefore'') = ''string''
            \<or> typeof (member input ''breakBefore'') = ''number''
              \<and> Number_isFinite (member input ''breakBefore''))
       \<and> (member input ''breakAfter'' = VUndefined
            \<or> typeof (member input ''breakAfter'') = ''string''
            \<or> typeof (member input ''breakAfter'') = ''number''
              \<and> Number_isFinite (member input ''breakAfter''))
       \<and> (member input ''tags'' = VUndefined
            \<or> (\<exists>ss. member input ''tags'' = VArr (map VStr ss)))
       \<and> (member input ''depositRequired'' = VUndefined
            \<or> typeof (member input ''depositRequired'') = ''boolean''
            \<or> typeof (member input ''depositRequired'') = ''string'')"
  then obtain n where n: "member input ''name'' = VStr n" "n \<noteq> []"
    by blast
  then obtain kvs where "input = VObj kvs"
    using member_VStr_object by blast
  from this n show "\<exists>data. parse b serviceSchema input = Inr data"
    by (rule serviceSchema_accepts) (use a in blast)+
next
  fix iss
  assume "parse (zodInfinite rt) serviceSchema (formValues s) = Inl iss"
  then show "handleSubmit rt s = s\<lparr>formErrors := iss\<rparr>"
    by (rule handleSubmit_invalid)
next
  assume "member (formValues s) ''name'' = VStr []"
  from serviceSchema_rejects_empty_name [OF this, of "zodInfinite rt"]
  obtain iss where "parse (zodInfinite rt) serviceSchema (formValues s) = Inl iss"
    by blast
  then have h: "handleSubmit rt s = s\<lparr>formErrors := iss\<rparr>"
    by (rule handleSubmit_invalid)
  show "effects (step rt s Submit) = effects s"
    and "createMutation (step rt s Submit) = createMutation s"
    and "updateMutation (step rt s Submit) = updateMutation s"
    by (simp_all add: h)
qed

theorem serviceSchema_validation_witness:
  "(\<exists>iss. parse True serviceSchema
        (VObj [(''name'', VStr []), (''price'', VNum (Finite 0)),
               (''duration'', VNum (Finite 30))]) = Inl iss
      \<and> Issue [Key ''name''] (TooSmall ''Nom requis'') \<in> set iss)
   \<and> (\<exists>data. parse True serviceSchema
        (VObj [(''name'', VStr ''Coupe''), (''price'', VStr ''45''),
               (''duration'', VNum (Finite 30)), (''tags'', VArr [VStr ''promo''])])
        = Inr data)
   \<and> effects (step sampleRuntime (initialPage VUndefined VUndefined) Submit) = []
   \<and> createMutation (step sampleRuntime (initialPage VUndefined VUndefined) Submit) = None"
proof -
  have 1: "formValues (initialPage VUndefined VUndefined) = defaultValues"
    and 2: "member defaultValues ''name'' = VStr []"
    and 3: "effects (initialPage VUndefined VUndefined) = []"
    and 4: "createMutation (initialPage VUndefined VUndefined) = None"
    by (simp_all add: initialPage_def defaultValues_def)
  have 5: "map VStr [''promo''] = [VStr ''promo'']" by simp
  show ?thesis
    using serviceSchema_validation [of "VObj [(''name'', VStr []), (''price'', VNum (Finite 0)),
               (''duration'', VNum (Finite 30))]" True sampleRuntime
               "initialPage VUndefined VUndefined"]
      serviceSchema_validation [of "VObj [(''name'', VStr ''Coupe''), (''price'', VStr ''45''),
               (''duration'', VNum (Finite 30)), (''tags'', VArr [VStr ''promo''])]" True
               sampleRuntime "initialPage VUndefined VUndefined"]
    unfolding 1 2 3 4
    by (simp del: parse.simps) (metis 5)
qed

theorem serviceSchema_validation_counterexample:
  "parse True serviceSchema
      (VObj [(''name'', VStr ''Coupe''), (''price'', VNum (Finite 45)),
             (''duration'', VNum (Finite 30)), (''tags'', VStr ''promo'')])
     = Inl [Issue [Key ''tags''] InvalidType]
   \<and> typeof (VNum NaN) = ''number''
   \<and> parse True serviceSchema
      (VObj [(''name'', VStr ''Coupe''), (''price'', VNum NaN),
             (''duration'', VNum (Finite 30))])
     = Inl [Issue [Key ''price''] InvalidUnion]"
  by (simp add: serviceSchema_def parsed_def issuesAt_def)


text \<open>
  Claim C5. The five attributes description, breakBefore, breakAfter, tags and
  depositRequired are optional: \<^verbatim>\<open>serviceSchema\<close> accepts every input that omits
  them, its required attributes being valid (a non-empty string as name, a string
  or a finite number as price and as duration). Parsing gives it the description
  \<^verbatim>\<open>""\<close>, and the payload built from the parsed value has breakBefore 0,
  breakAfter 0, tags \<^verbatim>\<open>[]\<close> and depositRequired false.
\<close>

theorem optional_attributes:
  assumes "member input ''name'' = VStr n" and "n \<noteq> []"
    and "typeof (member input ''price'') = ''string''
         \<or> typeof (member input ''price'') = ''number'' \<and> Number_isFinite (member input ''price'')"
    and "typeof (member input ''duration'') = ''string''
         \<or> typeof (member input ''duration'') = ''number''
           \<and> Number_isFinite (member input ''duration'')"
    and "member input ''description'' = VUndefined"
    and "member input ''breakBefore'' = VUndefined"
    and "member input ''breakAfter'' = VUndefined"
    and "member input ''tags'' = VUndefined"
    and "member input ''depositRequired'' = VUndefined"
  shows "\<exists>data. parse (zodInfinite rt) serviceSchema input = Inr data
    \<and> member data ''description'' = VStr []
    \<and> member (cleaned rt sal data) ''description'' = VStr []
    \<and> member (cleaned rt sal data) ''breakBefore'' = VNum (Finite 0)
    \<and> member (cleaned rt sal data) ''breakAfter'' = VNum (Finite 0)
    \<and> member (cleaned rt sal data) ''tags'' = VArr []
    \<and> member (cleaned rt sal data) ''depositRequired'' = VBool False"
proof -
  from assms(1) obtain kvs where "input = VObj kvs"
    using member_VStr_object by blast
  with assms obtain data where p: "parse (zodInfinite rt) serviceSchema input = Inr data"
    using serviceSchema_accepts [of input kvs n "zodInfinite rt"] by auto
  note d = serviceSchema_data [OF p]
  have "member data ''description'' = VStr []"
    and "member (cleaned rt sal data) ''description'' = VStr []"
    and "member (cleaned rt sal data) ''breakBefore'' = VNum (Finite 0)"
    and "member (cleaned rt sal data) ''breakAfter'' = VNum (Finite 0)"
    and "member (cleaned rt sal data) ''tags'' = VArr []"
    and "member (cleaned rt sal data) ''depositRequired'' = VBool False"
    unfolding member_cleaned d(3,7-10) assms(5-9)
    by (simp_all add: toNumber_def toBool_def nullish_def)
  with p show ?thesis by blast
qed

theorem optional_attributes_witness:
  "\<exists>data. parse True serviceSchema
        (VObj [(''name'', VStr ''Coupe''), (''price'', VStr ''45''),
               (''duration'', VNum (Finite 30))]) = Inr data
    \<and> member data ''description'' = VStr []
    \<and> member (cleaned sampleRuntime VUndefined data) ''breakBefore'' = VNum (Finite 0)
    \<and> member (cleaned sampleRuntime VUndefined data) ''tags'' = VArr []
    \<and> member (cleaned sampleRuntime VUndefined data) ''depositRequired'' = VBool False"
  using optional_attributes [of "VObj [(''name'', VStr ''Coupe''), (''price'', VStr ''45''),
      (''duration'', VNum (Finite 30))]" "''Coupe''" sampleRuntime VUndefined]
  by (simp add: sampleRuntime_sel del: parse.simps) blast

section \<open>Properties of the mutations and of the page\<close>

text \<open>
  What the toast shows when the body does not parse. The handler then awaits
  \<^verbatim>\<open>res.text()\<close>, but \<^verbatim>\<open>res.json()\<close> has read the body: \<^verbatim>\<open>text()\<close> rejects and the
  message stays \<^verbatim>\<open>Erreur inconnue\<close>, whatever the text of the body. Only a response
  without a body reaches the text, which is empty.
\<close>

lemma apiErrorMsg_unparsed:
  assumes "fst (res_json rt res) = Inl e"
  shows "apiErrorMsg rt res =
    (case res_body res of None \<Rightarrow> VStr [] | Some b \<Rightarrow> VStr ''Erreur inconnue'')"
  using assms
  by (auto simp: apiErrorMsg_def res_json_def res_text_def consumeBody_def
      split: option.splits sum.splits if_splits prod.splits)

lemma apiErrorMsg_bad_request:
  "apiErrorMsg sampleRuntime
     \<lparr>res_ok = False, res_body = Some (Inr ''Bad Request''), res_used = False\<rparr>
   = VStr ''Erreur inconnue''"
  by (simp add: apiErrorMsg_def res_json_def res_text_def consumeBody_def
      sampleRuntime_sel sampleParse_def)

lemma apiErrorMsg_parsed:
  assumes "fst (res_json rt res) = Inr data"
  shows "apiErrorMsg rt res =
    (if truthy (optChain data ''message'') then optChain data ''message''
     else JSON_stringify rt data)"
  using assms
  by (auto simp: apiErrorMsg_def js_or_def split: prod.splits sum.splits)

text \<open>
  Claim C6, amended. When \<^verbatim>\<open>apiRequest\<close> gives a response whose \<^verbatim>\<open>ok\<close> is false, each
  mutation function first shows the error toast of \<^verbatim>\<open>onApiError\<close> and then throws
  (\<^verbatim>\<open>create failed\<close>, \<^verbatim>\<open>update failed\<close>), and the page runs the mutation's
  \<^verbatim>\<open>onError\<close>. When the body parses as JSON, the toast's message is the body's
  \<^verbatim>\<open>message\<close> if that field is truthy and the body's JSON text otherwise. When \<^verbatim>\<open>ok\<close>
  is true no toast is shown and the function gives what \<^verbatim>\<open>res.json()\<close> gives: the
  parsed body when the body parses, and the rejection of \<^verbatim>\<open>res.json()\<close> when it
  does not.
\<close>

theorem mutation_failure_handling:
  "(apiRequest (createRequest payload) = Inr res \<and> \<not> res_ok res \<longrightarrow>
      createMutationFn rt apiRequest payload =
        ([Notify (Toast ''Erreur''
            (js_or (apiErrorMsg rt res)
               (VStr (''Impossible de cr'' @ [CHR 0xE9] @ ''er le service.'')))
            (Some ''destructive''))],
         Inl (Error ''create failed'')))
   \<and> (apiRequest (updateRequest rt vars) = Inr res \<and> \<not> res_ok res \<longrightarrow>
      updateMutationFn rt apiRequest vars =
        ([Notify (Toast ''Erreur''
            (js_or (apiErrorMsg rt res)
               (VStr (''Impossible de cr'' @ [CHR 0xE9] @ ''er le service.'')))
            (Some ''destructive''))],
         Inl (Error ''update failed'')))
   \<and> (fst (res_json rt res) = Inr data \<longrightarrow>
        apiErrorMsg rt res =
          (if truthy (optChain data ''message'') then optChain data ''message''
           else JSON_stringify rt data))
   \<and> (createMutation s = Some payload \<and> \<not> res_ok res \<longrightarrow>
        step rt s (CreateSettled (Inr res)) =
          onError rt (Error ''create failed'')
            (emit (onApiError rt res) (s\<lparr>createMutation := None\<rparr>)))
   \<and> (updateMutation s = Some vars \<and> \<not> res_ok res \<longrightarrow>
        step rt s (UpdateSettled (Inr res)) =
          onError rt (Error ''update failed'')
            (emit (onApiError rt res) (s\<lparr>updateMutation := None\<rparr>)))
   \<and> (apiRequest (createRequest payload) = Inr res \<and> res_ok res \<longrightarrow>
        createMutationFn rt apiRequest payload = ([], fst (res_json rt res)))
   \<and> (apiRequest (updateRequest rt vars) = Inr res \<and> res_ok res \<longrightarrow>
        updateMutationFn rt apiRequest vars = ([], fst (res_json rt res)))"
  by (simp add: createMutationFn_def updateMutationFn_def onApiError_def apiErrorMsg_parsed
      Let_def)

theorem mutation_failure_handling_witness:
  "createMutationFn sampleRuntime
      (\<lambda>req. Inr \<lparr>res_ok = False,
                   res_body = Some (Inr (''{'' @ [CHR 0x22] @ ''message'' @ [CHR 0x22] @ '':''
                     @ [CHR 0x22] @ ''Nom pris'' @ [CHR 0x22] @ ''}'')),
                   res_used = False\<rparr>) (VObj [])
     = ([Notify (Toast ''Erreur'' (VStr ''Nom pris'') (Some ''destructive''))],
        Inl (Error ''create failed''))
   \<and> updateMutationFn sampleRuntime
      (\<lambda>req. Inr \<lparr>res_ok = False, res_body = Some (Inr ''{}''), res_used = False\<rparr>)
      (VObj [(''id'', VStr ''s1''), (''data'', VObj [])])
     = ([Notify (Toast ''Erreur'' (VStr ''{}'') (Some ''destructive''))],
        Inl (Error ''update failed''))
   \<and> updateMutationFn sampleRuntime
      (\<lambda>req. Inr \<lparr>res_ok = True, res_body = Some (Inr ''{}''), res_used = False\<rparr>)
      (VObj [(''id'', VStr ''s1''), (''data'', VObj [])])
     = ([], Inr (VObj []))"
proof -
  have 1: "fst (res_json sampleRuntime
      \<lparr>res_ok = False,
       res_body = Some (Inr (''{'' @ [CHR 0x22] @ ''message'' @ [CHR 0x22] @ '':''
         @ [CHR 0x22] @ ''Nom pris'' @ [CHR 0x22] @ ''}'')),
       res_used = False\<rparr>) = Inr (VObj [(''message'', VStr ''Nom pris'')])"
    and 2: "fst (res_json sampleRuntime
      \<lparr>res_ok = False, res_body = Some (Inr ''{}''), res_used = False\<rparr>) = Inr (VObj [])"
    and 3: "fst (res_json sampleRuntime
      \<lparr>res_ok = True, res_body = Some (Inr ''{}''), res_used = False\<rparr>) = Inr (VObj [])"
    by (simp_all add: res_json_def consumeBody_def sampleRuntime_sel sampleParse_def)
  show ?thesis
    using
      mutation_failure_handling [of
        "\<lambda>req. Inr \<lparr>res_ok = False,
           res_body = Some (Inr (''{'' @ [CHR 0x22] @ ''message'' @ [CHR 0x22] @ '':''
             @ [CHR 0x22] @ ''Nom pris'' @ [CHR 0x22] @ ''}'')),
           res_used = False\<rparr>" "VObj []"
        "\<lparr>res_ok = False,
           res_body = Some (Inr (''{'' @ [CHR 0x22] @ ''message'' @ [CHR 0x22] @ '':''
             @ [CHR 0x22] @ ''Nom pris'' @ [CHR 0x22] @ ''}'')),
           res_used = False\<rparr>" sampleRuntime
        "VObj [(''id'', VStr ''s1''), (''data'', VObj [])]"
        "VObj [(''message'', VStr ''Nom pris'')]" "initialPage VUndefined VUndefined"]
      mutation_failure_handling [of
        "\<lambda>req. Inr \<lparr>res_ok = False, res_body = Some (Inr ''{}''), res_used = False\<rparr>"
        "VObj []"
        "\<lparr>res_ok = False, res_body = Some (Inr ''{}''), res_used = False\<rparr>" sampleRuntime
        "VObj [(''id'', VStr ''s1''), (''data'', VObj [])]"
        "VObj []" "initialPage VUndefined VUndefined"]
      mutation_failure_handling [of
        "\<lambda>req. Inr \<lparr>res_ok = True, res_body = Some (Inr ''{}''), res_used = False\<rparr>"
        "VObj []"
        "\<lparr>res_ok = True, res_body = Some (Inr ''{}''), res_used = False\<rparr>" sampleRuntime
        "VObj [(''id'', VStr ''s1''), (''data'', VObj [])]"
        "VObj []" "initialPage VUndefined VUndefined"]
    unfolding 1 2 3
    by (simp add: js_or_def optChain_def sampleRuntime_sel sampleStringify_def)
qed

theorem mutation_failure_handling_counterexample:
  "res_ok \<lparr>res_ok = True, res_body = Some (Inr []), res_used = False\<rparr>
   \<and> createMutationFn sampleRuntime
      (\<lambda>req. Inr \<lparr>res_ok = True, res_body = Some (Inr []), res_used = False\<rparr>) (VObj [])
     = ([], Inl SyntaxError)"
  by (simp add: createMutationFn_def res_json_def consumeBody_def sampleRuntime_sel
      sampleParse_def)

lemmas handler_defs =
  form_reset_def emit_def createMutate_def updateMutate_def onSubmit_def handleSubmit_def
  createOnSuccess_def updateOnSuccess_def onError_def createMutationFn_def
  updateMutationFn_def onApiError_def submitButton_def isPending_def Let_def


lemma step_salon: "salon (step rt s e) = salon s"
  by (cases e) (simp_all add: handler_defs split: sum.splits option.splits)

lemma run_salon: "salon (run rt s evs) = salon s"
  by (induction evs arbitrary: s) (simp_all add: step_salon)

lemma cleaned_salon:
  "nullish (optChain a ''id'') VUndefined = nullish (optChain a' ''id'') VUndefined \<Longrightarrow>
   cleaned rt a data = cleaned rt a' data"
  by (simp add: cleaned_def)

lemma step_salon_use:
  assumes "nullish (optChain a ''id'') VUndefined = nullish (optChain a' ''id'') VUndefined"
  shows "step rt (s\<lparr>salon := a\<rparr>) e = (step rt (s\<lparr>salon := a'\<rparr>) e)\<lparr>salon := a\<rparr>"
  by (cases e)
    (simp_all add: handler_defs cleaned_salon [OF assms] split: sum.splits option.splits)

lemma step_effects:
  "\<exists>es. effects (step rt s e) = effects s @ es
     \<and> (\<forall>x \<in> set es. case x of
           Send (Request m u b) \<Rightarrow> prefix ''/api/services'' u
         | Invalidate k \<Rightarrow> k = ''/api/services''
         | _ \<Rightarrow> True)"
  by (cases e)
    (auto simp: handler_defs createRequest_def updateRequest_def
      split: sum.splits option.splits)

text \<open>
  Claim C7. No handler of the page changes the salon: every event, and so every
  run, leaves it as it was. Every request that a handler passes to \<^verbatim>\<open>apiRequest\<close>
  has a URL that starts with \<^verbatim>\<open>/api/services\<close>, and the only query invalidated is
  \<^verbatim>\<open>/api/services\<close>. The page reads the salon for one thing, the \<^verbatim>\<open>salonId\<close> of the
  payload: two salons that give the same \<^verbatim>\<open>salon?.id ?? undefined\<close> give the same
  behaviour.
\<close>

theorem salon_read_only:
  "salon (step rt s e) = salon s
   \<and> salon (run rt s evs) = salon s
   \<and> (\<exists>es. effects (step rt s e) = effects s @ es
        \<and> (\<forall>x \<in> set es. case x of
              Send (Request m u b) \<Rightarrow> prefix ''/api/services'' u
            | Invalidate k \<Rightarrow> k = ''/api/services''
            | _ \<Rightarrow> True))
   \<and> (nullish (optChain a ''id'') VUndefined = nullish (optChain a' ''id'') VUndefined
        \<longrightarrow> step rt (s\<lparr>salon := a\<rparr>) e = (step rt (s\<lparr>salon := a'\<rparr>) e)\<lparr>salon := a\<rparr>)"
  using step_salon run_salon step_effects step_salon_use by blast


theorem salon_read_only_witness:
  "salon (run sampleRuntime (initialPage (VObj [(''id'', VStr ''salon-1'')]) (VArr []))
      [FieldChange ''name'' (VStr ''Coupe''), Submit]) = VObj [(''id'', VStr ''salon-1'')]
   \<and> effects (step sampleRuntime
        (step sampleRuntime (initialPage (VObj [(''id'', VStr ''salon-1'')]) (VArr []))
           (FieldChange ''name'' (VStr ''Coupe''))) Submit)
     = [Send (Request ''POST'' ''/api/services''
         (VObj [(''salonId'', VStr ''salon-1''), (''name'', VStr ''Coupe''),
                (''description'', VStr []), (''price'', VNum (Finite 0)),
                (''duration'', VNum (Finite 30)), (''breakBefore'', VNum (Finite 0)),
                (''breakAfter'', VNum (Finite 0)), (''tags'', VArr []),
                (''depositRequired'', VBool False)]))]
   \<and> step sampleRuntime
        ((initialPage VUndefined (VArr []))\<lparr>salon := VObj [(''id'', VNull)]\<rparr>) Submit
     = (step sampleRuntime
        ((initialPage VUndefined (VArr []))\<lparr>salon := VNull\<rparr>) Submit)
        \<lparr>salon := VObj [(''id'', VNull)]\<rparr>"
proof -
  have "nullish (optChain (VObj [(''id'', VNull)]) ''id'') VUndefined
      = nullish (optChain VNull ''id'') VUndefined"
    by (simp add: nullish_def optChain_def)
  with salon_read_only [of sampleRuntime "initialPage VUndefined (VArr [])" Submit "[]"
      "VObj [(''id'', VNull)]" VNull]
  have 1: "step sampleRuntime
        ((initialPage VUndefined (VArr []))\<lparr>salon := VObj [(''id'', VNull)]\<rparr>) Submit
     = (step sampleRuntime
        ((initialPage VUndefined (VArr []))\<lparr>salon := VNull\<rparr>) Submit)
        \<lparr>salon := VObj [(''id'', VNull)]\<rparr>"
    by blast
  from salon_read_only [of sampleRuntime
      "initialPage (VObj [(''id'', VStr ''salon-1'')]) (VArr [])" Submit
      "[FieldChange ''name'' (VStr ''Coupe''), Submit]" VNull VNull]
  have 2: "salon (run sampleRuntime (initialPage (VObj [(''id'', VStr ''salon-1'')]) (VArr []))
      [FieldChange ''name'' (VStr ''Coupe''), Submit]) = VObj [(''id'', VStr ''salon-1'')]"
    by (simp add: initialPage_def)
  have 3: "effects (step sampleRuntime
        (step sampleRuntime (initialPage (VObj [(''id'', VStr ''salon-1'')]) (VArr []))
           (FieldChange ''name'' (VStr ''Coupe''))) Submit)
     = [Send (Request ''POST'' ''/api/services''
         (VObj [(''salonId'', VStr ''salon-1''), (''name'', VStr ''Coupe''),
                (''description'', VStr []), (''price'', VNum (Finite 0)),
                (''duration'', VNum (Finite 30)), (''breakBefore'', VNum (Finite 0)),
                (''breakAfter'', VNum (Finite 0)), (''tags'', VArr []),
                (''depositRequired'', VBool False)]))]"
    by (simp add: initialPage_def defaultValues_def handler_defs serviceSchema_def parsed_def
        sampleRuntime_sel cleaned_def nullish_def optChain_def toNumber_def toBool_def
        createRequest_def)
  from 1 2 3 show ?thesis by blast
qed









end
